theory Spec2Isabelle
  imports Main "HOL-Library.Word"
begin

unbundle bit_operations_syntax

section \<open>Constants and configuration (client.go)\<close>

text \<open>
  \<^verbatim>\<open>time.Duration\<close> is a count of nanoseconds. The source only compares durations with
  zero and stores constants, so they are integers here; \<^verbatim>\<open>MaxRetries\<close> is a Go \<^verbatim>\<open>int\<close>
  that is likewise only compared and stored.
\<close>

type_synonym Duration = int

definition Second :: Duration where
  "Second = 1000000000"

definition Version :: string where
  "Version = ''1.0.0''"

definition DefaultTimeout :: Duration where
  "DefaultTimeout = 30 * Second"

definition DefaultMaxRetries :: int where
  "DefaultMaxRetries = 3"

definition ProductionBaseURL :: string where
  "ProductionBaseURL = ''https://api.xrpl.sale/v1''"

definition TestnetBaseURL :: string where
  "TestnetBaseURL = ''https://api-testnet.xrpl.sale/v1''"

type_synonym Environment = string

definition Production :: Environment where
  "Production = ''production''"

definition Testnet :: Environment where
  "Testnet = ''testnet''"

record Config =
  APIKey :: string
  Environment :: Environment
  BaseURL :: string
  Timeout :: Duration
  MaxRetries :: int
  RetryWaitTime :: Duration
  WebhookSecret :: string
  Debug :: bool

section \<open>Errors and responses\<close>

text \<open>
  Modelled from the spec: the declaration of \<^verbatim>\<open>APIError\<close> is not among the source files.
  The spec gives it the fields message, code, details and retry-after; the source reads
  only \<^verbatim>\<open>Message\<close>.
\<close>

record APIError =
  Message :: string
  Code :: string
  Details :: "(string \<times> string) list"
  RetryAfter :: int

text \<open>
  A Go \<^verbatim>\<open>error\<close> value is one of: an error handed back by the HTTP library (network
  failure, timeout), an error built with \<^verbatim>\<open>fmt.Errorf\<close>, or the decoded \<^verbatim>\<open>*APIError\<close>.
  A nil error is \<open>None\<close>.
\<close>

datatype error = LibError string | Errorf string | APIErr APIError

text \<open>The zero value \<^verbatim>\<open>APIError{}\<close>, which the source hands to \<^verbatim>\<open>SetError\<close>.\<close>

definition APIError_zero :: APIError where
  "APIError_zero = \<lparr> Message = '''', Code = '''', Details = [], RetryAfter = 0 \<rparr>"

text \<open>
  What the source reads of a \<^verbatim>\<open>*resty.Response\<close>: the status code, the status line and
  \<^verbatim>\<open>resp.Error()\<close>. The last is the error target of the request, the object given to
  \<^verbatim>\<open>SetError\<close>, with what the library decoded into it; it is nil, here \<open>None\<close>, when
  the library has dropped the target, as it does on a 2xx answer of an earlier attempt.
\<close>

record Response =
  StatusCode :: int
  Status :: string
  Error :: "APIError option"

text \<open>\<^verbatim>\<open>resp.IsError()\<close> of the HTTP library: the status code is above 399.\<close>

definition IsError :: "Response \<Rightarrow> bool" where
  "IsError r = (StatusCode r > 399)"

section \<open>The HTTP client as the source configures it\<close>

text \<open>
  The settings of the \<^verbatim>\<open>resty.Client\<close> that the source writes: one field per setter
  called in \<^verbatim>\<open>NewClientWithConfig\<close> and \<^verbatim>\<open>SetAuthToken\<close>, holding what the setter
  stores.
\<close>

record HttpClient =
  hcBaseURL :: string
  hcTimeout :: Duration
  hcRetryCount :: int
  hcRetryWaitTime :: Duration
  hcRetryMaxWaitTime :: Duration
  hcHeader :: "string \<rightharpoonup> string"
  hcDebug :: bool
  hcRetryConditions :: "(Response \<Rightarrow> error option \<Rightarrow> bool) list"
  hcToken :: string

text \<open>
  The closure given to \<^verbatim>\<open>AddRetryCondition\<close>:
  \<^verbatim>\<open>return err != nil || r.StatusCode() >= 500\<close>.
\<close>

definition retryCondition :: "Response \<Rightarrow> error option \<Rightarrow> bool" where
  "retryCondition r err = (err \<noteq> None \<or> StatusCode r \<ge> 500)"

record Client =
  config :: Config
  httpClient :: HttpClient
  authToken :: string

text \<open>
  \<^verbatim>\<open>SetBaseURL\<close> of the HTTP library stores \<^verbatim>\<open>strings.TrimRight(url, "/")\<close>: the URL
  without its trailing slashes.
\<close>

definition TrimRight_slash :: "string \<Rightarrow> string" where
  "TrimRight_slash s = rev (dropWhile (\<lambda>c. c = CHR ''/'') (rev s))"

text \<open>
  \<^verbatim>\<open>NewClientWithConfig\<close> first fills the defaults into the configuration (the source
  writes them through the pointer it was given), then builds the HTTP client from it.
\<close>

definition setDefaults :: "Config \<Rightarrow> Config" where
  "setDefaults config0 =
    (let config1 = (if Environment config0 = '''' then config0\<lparr>Environment := Production\<rparr>
                    else config0);
         config2 = (if BaseURL config1 = ''''
                    then (if Environment config1 = Testnet
                          then config1\<lparr>BaseURL := TestnetBaseURL\<rparr>
                          else config1\<lparr>BaseURL := ProductionBaseURL\<rparr>)
                    else config1);
         config3 = (if Timeout config2 = 0 then config2\<lparr>Timeout := DefaultTimeout\<rparr>
                    else config2);
         config4 = (if MaxRetries config3 = 0
                    then config3\<lparr>MaxRetries := DefaultMaxRetries\<rparr> else config3);
         config5 = (if RetryWaitTime config4 = 0
                    then config4\<lparr>RetryWaitTime := 1 * Second\<rparr> else config4)
     in config5)"

definition NewClientWithConfig :: "Config \<Rightarrow> Client" where
  "NewClientWithConfig config0 =
    (let cfg = setDefaults config0;
         h0 = \<lparr> hcBaseURL = TrimRight_slash (BaseURL cfg),
                hcTimeout = Timeout cfg,
                hcRetryCount = MaxRetries cfg,
                hcRetryWaitTime = RetryWaitTime cfg,
                hcRetryMaxWaitTime = 10 * Second,
                hcHeader = [''User-Agent'' \<mapsto> ''XRPL.Sale-Go-SDK/'' @ Version,
                            ''Accept'' \<mapsto> ''application/json'',
                            ''Content-Type'' \<mapsto> ''application/json''],
                hcDebug = False,
                hcRetryConditions = [],
                hcToken = '''' \<rparr>;
         h1 = (if Debug cfg then h0\<lparr>hcDebug := True\<rparr> else h0);
         h2 = h1\<lparr>hcRetryConditions := hcRetryConditions h1 @ [retryCondition]\<rparr>;
         h3 = (if APIKey cfg \<noteq> ''''
               then h2\<lparr>hcHeader := (hcHeader h2)(''X-API-Key'' \<mapsto> APIKey cfg)\<rparr> else h2)
     in \<lparr> config = cfg, httpClient = h3, authToken = '''' \<rparr>)"

definition NewClient :: "string \<Rightarrow> Client" where
  "NewClient apiKey =
     NewClientWithConfig \<lparr> APIKey = apiKey, Environment = Production, BaseURL = '''',
       Timeout = 0, MaxRetries = 0, RetryWaitTime = 0, WebhookSecret = '''', Debug = False \<rparr>"

section \<open>Requests (client.go)\<close>

text \<open>
  \<^verbatim>\<open>fmt.Sprintf("%d", n)\<close>: the decimal digits of \<open>n\<close>, with a minus sign below zero.
\<close>

fun digits :: "nat \<Rightarrow> string" where
  "digits n =
     (if n < 10 then [''0123456789'' ! n]
      else digits (n div 10) @ [''0123456789'' ! (n mod 10)])"

declare digits.simps [simp del]

definition Sprintf_d :: "int \<Rightarrow> string" where
  "Sprintf_d i = (if i < 0 then CHR ''-'' # digits (nat (- i)) else digits (nat i))"

definition MethodGet :: string where
  "MethodGet = ''GET''"

definition MethodPost :: string where
  "MethodPost = ''POST''"

definition MethodPut :: string where
  "MethodPut = ''PUT''"

definition MethodPatch :: string where
  "MethodPatch = ''PATCH''"

definition MethodDelete :: string where
  "MethodDelete = ''DELETE''"

text \<open>
  A request body is either one of the typed request structures (kept as the text it is
  serialised to) or a string-keyed map, as the Auth service builds.
\<close>

datatype Body = Payload string | Fields "(string \<times> string) list"

text \<open>
  \<^verbatim>\<open>IsStringEmpty\<close> of the HTTP library, \<^verbatim>\<open>len(strings.TrimSpace(str)) == 0\<close>: the
  string consists of white space only. White space is what \<^verbatim>\<open>unicode.IsSpace\<close> accepts,
  read from the UTF-8 bytes of the string: the bytes 0x09 to 0x0D and 0x20, and the
  encodings of U+0085, U+00A0, U+1680, U+2000 to U+200A, U+2028, U+2029, U+202F, U+205F
  and U+3000.
\<close>

fun IsStringEmpty :: "string \<Rightarrow> bool" where
  "IsStringEmpty [] = True"
| "IsStringEmpty (a # s) =
     (let x = (of_char a :: nat)
      in if x = 0x20 \<or> (0x09 \<le> x \<and> x \<le> 0x0D) then IsStringEmpty s
         else (case s of
                 [] \<Rightarrow> False
               | b # t \<Rightarrow>
                   (let y = (of_char b :: nat)
                    in if x = 0xC2 \<and> (y = 0x85 \<or> y = 0xA0) then IsStringEmpty t
                       else (case t of
                               [] \<Rightarrow> False
                             | c # u \<Rightarrow>
                                 (let z = (of_char c :: nat)
                                  in if (x = 0xE1 \<and> y = 0x9A \<and> z = 0x80) \<or>
                                        (x = 0xE2 \<and> y = 0x80 \<and>
                                           (0x80 \<le> z \<and> z \<le> 0x8A \<or> z = 0xA8 \<or> z = 0xA9 \<or>
                                            z = 0xAF)) \<or>
                                        (x = 0xE2 \<and> y = 0x81 \<and> z = 0x9F) \<or>
                                        (x = 0xE3 \<and> y = 0x80 \<and> z = 0x80)
                                     then IsStringEmpty u else False)))))"

text \<open>
  What one call hands to the HTTP library, and the header fields the library sends with
  it. The method, the endpoint, the query parameters and the body are the arguments of
  \<^verbatim>\<open>req.Get\<close>, \<^verbatim>\<open>req.Post\<close>, ..., \<^verbatim>\<open>SetQueryParams\<close> and \<^verbatim>\<open>SetBody\<close> as the source
  gives them, next to the base URL the client holds; how the library joins base URL and
  endpoint, and whether it sends the body, is not modelled. The header fields are those
  set with \<^verbatim>\<open>SetHeader\<close> on the client and, when the client's token is not empty in the
  sense of \<^verbatim>\<open>IsStringEmpty\<close>, the field \<^verbatim>\<open>Authorization: Bearer <token>\<close>.
\<close>

record HttpRequest =
  rqMethod :: string
  rqBaseURL :: string
  rqEndpoint :: string
  rqHeader :: "string \<rightharpoonup> string"
  rqQueryParam :: "string \<rightharpoonup> string"
  rqBody :: "Body option"

definition outgoing ::
  "HttpClient \<Rightarrow> string \<Rightarrow> string \<Rightarrow> (string \<rightharpoonup> string) \<Rightarrow> Body option \<Rightarrow> HttpRequest" where
  "outgoing h method endpoint params body =
     \<lparr> rqMethod = method,
       rqBaseURL = hcBaseURL h,
       rqEndpoint = endpoint,
       rqHeader = (if IsStringEmpty (hcToken h) then hcHeader h
                   else (hcHeader h)(''Authorization'' \<mapsto> ''Bearer '' @ hcToken h)),
       rqQueryParam = params,
       rqBody = body \<rparr>"

text \<open>
  The network and the remote API are the environment: a transport answers a request
  with the pair \<^verbatim>\<open>(resp, err)\<close> that \<^verbatim>\<open>req.Get\<close>, \<^verbatim>\<open>req.Post\<close>, ... return, with the
  new content of the result target given to \<^verbatim>\<open>SetResult\<close> (a call without a result
  target has the unit type there), and with the content of the error target given to
  \<^verbatim>\<open>SetError\<close> as the call leaves it. The list of requests handed to the transport is
  threaded through, so that a call which sends nothing leaves it as it was.
\<close>

type_synonym 'r Transport =
  "HttpRequest \<Rightarrow> 'r \<Rightarrow> (Response \<times> error option) \<times> 'r \<times> APIError"

definition execute ::
  "'r Transport \<Rightarrow> HttpRequest \<Rightarrow> 'r \<Rightarrow> HttpRequest list
     \<Rightarrow> ((Response \<times> error option) \<times> 'r \<times> APIError) \<times> HttpRequest list" where
  "execute T rq result wire = (T rq result, wire @ [rq])"

text \<open>
  \<^verbatim>\<open>Request\<close>: the switch on the method, then the library's error first, then the
  \<^verbatim>\<open>APIError\<close> when its message is not empty, then the generic error. It reads the
  message from its own variable \<^verbatim>\<open>apiError\<close>, the error target.
\<close>

definition Request ::
  "'r Transport \<Rightarrow> Client \<Rightarrow> string \<Rightarrow> string \<Rightarrow> Body option \<Rightarrow> 'r \<Rightarrow> HttpRequest list
     \<Rightarrow> (error option \<times> 'r) \<times> HttpRequest list" where
  "Request T c method endpoint body result wire =
     (let req = (\<lambda>m. execute T (outgoing (httpClient c) m endpoint Map.empty body) result wire);
          called =
            (if method = MethodGet then Some (req MethodGet)
             else if method = MethodPost then Some (req MethodPost)
             else if method = MethodPut then Some (req MethodPut)
             else if method = MethodPatch then Some (req MethodPatch)
             else if method = MethodDelete then Some (req MethodDelete)
             else None)
      in case called of
           None \<Rightarrow> ((Some (Errorf (''unsupported method: '' @ method)), result), wire)
         | Some (((resp, err), result', apiError), wire') \<Rightarrow>
             if err \<noteq> None then ((err, result'), wire')
             else if IsError resp then
               (if Message apiError \<noteq> ''''
                then ((Some (APIErr apiError), result'), wire')
                else ((Some (Errorf (''API error: '' @ Sprintf_d (StatusCode resp) @ '' ''
                                       @ Status resp)), result'), wire'))
             else ((None, result'), wire'))"

text \<open>
  A call either returns or panics. \<^verbatim>\<open>Get\<close> has no switch, passes the query parameters,
  and words the generic error without the status line. It takes the \<^verbatim>\<open>APIError\<close> from
  \<^verbatim>\<open>resp.Error().(*APIError)\<close>, a type assertion without the comma-ok form, which
  panics when \<^verbatim>\<open>resp.Error()\<close> is nil.
\<close>

datatype 'a returns = Panic | Return 'a

definition Get ::
  "'r Transport \<Rightarrow> Client \<Rightarrow> string \<Rightarrow> (string \<rightharpoonup> string) \<Rightarrow> 'r \<Rightarrow> HttpRequest list
     \<Rightarrow> (error option \<times> 'r) returns \<times> HttpRequest list" where
  "Get T c endpoint params result wire =
     (case execute T (outgoing (httpClient c) MethodGet endpoint params None) result wire of
        (((resp, err), result', apiError), wire') \<Rightarrow>
          if err \<noteq> None then (Return (err, result'), wire')
          else if IsError resp then
            (case Error resp of
               None \<Rightarrow> (Panic, wire')
             | Some apiErr \<Rightarrow>
                 if Message apiErr \<noteq> ''''
                 then (Return (Some (APIErr apiErr), result'), wire')
                 else (Return (Some (Errorf (''API error: '' @ Sprintf_d (StatusCode resp))),
                               result'), wire'))
          else (Return (None, result'), wire'))"

definition Post ::
  "'r Transport \<Rightarrow> Client \<Rightarrow> string \<Rightarrow> Body option \<Rightarrow> 'r \<Rightarrow> HttpRequest list
     \<Rightarrow> (error option \<times> 'r) \<times> HttpRequest list" where
  "Post T c endpoint body result wire = Request T c MethodPost endpoint body result wire"

definition Put ::
  "'r Transport \<Rightarrow> Client \<Rightarrow> string \<Rightarrow> Body option \<Rightarrow> 'r \<Rightarrow> HttpRequest list
     \<Rightarrow> (error option \<times> 'r) \<times> HttpRequest list" where
  "Put T c endpoint body result wire = Request T c MethodPut endpoint body result wire"

definition Patch ::
  "'r Transport \<Rightarrow> Client \<Rightarrow> string \<Rightarrow> Body option \<Rightarrow> 'r \<Rightarrow> HttpRequest list
     \<Rightarrow> (error option \<times> 'r) \<times> HttpRequest list" where
  "Patch T c endpoint body result wire = Request T c MethodPatch endpoint body result wire"

definition Delete ::
  "'r Transport \<Rightarrow> Client \<Rightarrow> string \<Rightarrow> 'r \<Rightarrow> HttpRequest list
     \<Rightarrow> (error option \<times> 'r) \<times> HttpRequest list" where
  "Delete T c endpoint result wire = Request T c MethodDelete endpoint None result wire"

definition SetAuthToken :: "Client \<Rightarrow> string \<Rightarrow> Client" where
  "SetAuthToken c token = c\<lparr>authToken := token, httpClient := (httpClient c)\<lparr>hcToken := token\<rparr>\<rparr>"

section \<open>Service methods (services.go)\<close>

record ListProjectsOptions =
  Status :: string
  Page :: int
  Limit :: int
  SortBy :: string
  SortOrder :: string

text \<open>
  The query parameters \<^verbatim>\<open>ProjectsService.List\<close> builds before the call; a nil
  \<^verbatim>\<open>opts\<close> is \<open>None\<close>.
\<close>

definition List_params :: "ListProjectsOptions option \<Rightarrow> (string \<rightharpoonup> string)" where
  "List_params opts =
     (case opts of
        None \<Rightarrow> Map.empty
      | Some opt \<Rightarrow>
          (let p0 = Map.empty;
               p1 = (if Status opt \<noteq> '''' then p0(''status'' \<mapsto> Status opt) else p0);
               p2 = (if Page opt > 0 then p1(''page'' \<mapsto> Sprintf_d (Page opt)) else p1);
               p3 = (if Limit opt > 0 then p2(''limit'' \<mapsto> Sprintf_d (Limit opt)) else p2);
               p4 = (if SortBy opt \<noteq> '''' then p3(''sort_by'' \<mapsto> SortBy opt) else p3);
               p5 = (if SortOrder opt \<noteq> '''' then p4(''sort_order'' \<mapsto> SortOrder opt) else p4)
           in p5))"

text \<open>
  \<^verbatim>\<open>ProjectsService.List\<close>; \<open>result0\<close> is the zero value of the declared result
  variable, which the call then fills.
\<close>

definition Projects_List ::
  "'r Transport \<Rightarrow> Client \<Rightarrow> ListProjectsOptions option \<Rightarrow> 'r \<Rightarrow> HttpRequest list
     \<Rightarrow> ('r \<times> error option) returns \<times> HttpRequest list" where
  "Projects_List T c opts result0 wire =
     (case Get T c ''/projects'' (List_params opts) result0 wire of
        (Panic, wire') \<Rightarrow> (Panic, wire')
      | (Return (err, result), wire') \<Rightarrow> (Return (result, err), wire'))"

definition Projects_GetActive ::
  "'r Transport \<Rightarrow> Client \<Rightarrow> int \<Rightarrow> int \<Rightarrow> 'r \<Rightarrow> HttpRequest list
     \<Rightarrow> ('r \<times> error option) returns \<times> HttpRequest list" where
  "Projects_GetActive T c page limit result0 wire =
     Projects_List T c
       (Some \<lparr> Status = ''active'', Page = page, Limit = limit, SortBy = '''', SortOrder = '''' \<rparr>)
       result0 wire"

text \<open>
  Modelled from the spec: the declaration of \<^verbatim>\<open>AuthResponse\<close> is not among the source
  files. The source reads only its \<^verbatim>\<open>Token\<close>; the zero value has the empty token.
\<close>

record AuthResponse =
  Token :: string

text \<open>
  \<^verbatim>\<open>AuthService.Authenticate\<close> and \<^verbatim>\<open>AuthService.Refresh\<close> return the response, the
  error and the client, whose token they set when the call succeeded with a non-empty
  token.
\<close>

definition Auth_Authenticate ::
  "AuthResponse Transport \<Rightarrow> Client \<Rightarrow> string \<Rightarrow> HttpRequest list
     \<Rightarrow> ((AuthResponse \<times> error option) \<times> Client) \<times> HttpRequest list" where
  "Auth_Authenticate T c authReq wire =
     (case Post T c ''/auth/wallet'' (Some (Payload authReq)) \<lparr> Token = '''' \<rparr> wire of
        ((err, response), wire') \<Rightarrow>
          (((response, err),
            (if err = None \<and> Token response \<noteq> '''' then SetAuthToken c (Token response) else c)),
           wire'))"

definition Auth_Refresh ::
  "AuthResponse Transport \<Rightarrow> Client \<Rightarrow> string \<Rightarrow> HttpRequest list
     \<Rightarrow> ((AuthResponse \<times> error option) \<times> Client) \<times> HttpRequest list" where
  "Auth_Refresh T c refreshToken wire =
     (case Post T c ''/auth/refresh'' (Some (Fields [(''refresh_token'', refreshToken)]))
             \<lparr> Token = '''' \<rparr> wire of
        ((err, response), wire') \<Rightarrow>
          (((response, err),
            (if err = None \<and> Token response \<noteq> '''' then SetAuthToken c (Token response) else c)),
           wire'))"

section \<open>Webhook signatures (client.go)\<close>




definition rotr :: "nat \<Rightarrow> 32 word \<Rightarrow> 32 word" where
  "rotr n x = drop_bit n x OR push_bit (32 - n) x"



definition bsig0 :: "32 word \<Rightarrow> 32 word" where
  "bsig0 x = rotr 2 x XOR rotr 13 x XOR rotr 22 x"

definition bsig1 :: "32 word \<Rightarrow> 32 word" where
  "bsig1 x = rotr 6 x XOR rotr 11 x XOR rotr 25 x"

definition ssig0 :: "32 word \<Rightarrow> 32 word" where
  "ssig0 x = rotr 7 x XOR rotr 18 x XOR drop_bit 3 x"

definition ssig1 :: "32 word \<Rightarrow> 32 word" where
  "ssig1 x = rotr 17 x XOR rotr 19 x XOR drop_bit 10 x"
















section \<open>Properties of the configuration\<close>

lemma setDefaults_simps:
  "Timeout (setDefaults cfg) = (if Timeout cfg = 0 then DefaultTimeout else Timeout cfg)"
  "MaxRetries (setDefaults cfg) = (if MaxRetries cfg = 0 then DefaultMaxRetries else MaxRetries cfg)"
  "RetryWaitTime (setDefaults cfg) = (if RetryWaitTime cfg = 0 then 1 * Second else RetryWaitTime cfg)"
  "Environment (setDefaults cfg) = (if Environment cfg = '''' then Production else Environment cfg)"
  "BaseURL (setDefaults cfg) =
     (if BaseURL cfg = ''''
      then (if Environment cfg = Testnet then TestnetBaseURL else ProductionBaseURL)
      else BaseURL cfg)"
  "APIKey (setDefaults cfg) = APIKey cfg"
  "WebhookSecret (setDefaults cfg) = WebhookSecret cfg"
  "Debug (setDefaults cfg) = Debug cfg"
  by (simp_all add: setDefaults_def Let_def Production_def Testnet_def)

lemma NewClientWithConfig_config: "config (NewClientWithConfig cfg) = setDefaults cfg"
  by (simp add: NewClientWithConfig_def Let_def)

lemma NewClientWithConfig_http:
  "hcBaseURL (httpClient (NewClientWithConfig cfg)) = TrimRight_slash (BaseURL (setDefaults cfg))"
  "hcTimeout (httpClient (NewClientWithConfig cfg)) = Timeout (setDefaults cfg)"
  "hcRetryCount (httpClient (NewClientWithConfig cfg)) = MaxRetries (setDefaults cfg)"
  "hcRetryWaitTime (httpClient (NewClientWithConfig cfg)) = RetryWaitTime (setDefaults cfg)"
  "hcRetryMaxWaitTime (httpClient (NewClientWithConfig cfg)) = 10 * Second"
  "hcRetryConditions (httpClient (NewClientWithConfig cfg)) = [retryCondition]"
  "hcToken (httpClient (NewClientWithConfig cfg)) = ''''"
  "hcDebug (httpClient (NewClientWithConfig cfg)) = Debug cfg"
  by (simp_all add: NewClientWithConfig_def Let_def setDefaults_simps)

lemma TrimRight_slash_defaults:
  "TrimRight_slash ''https://api.xrpl.sale/v1'' = ''https://api.xrpl.sale/v1''"
  "TrimRight_slash ''https://api-testnet.xrpl.sale/v1'' = ''https://api-testnet.xrpl.sale/v1''"
  by (simp_all add: TrimRight_slash_def)



text \<open>
  The HTTP client's copy of the base URL is empty when the configured one consists of
  slashes only.
\<close>

lemma client_base_URL_of_slash:
  "BaseURL (config (NewClientWithConfig (cfg\<lparr>BaseURL := ''/''\<rparr>))) = ''/'' \<and>
   hcBaseURL (httpClient (NewClientWithConfig (cfg\<lparr>BaseURL := ''/''\<rparr>))) = ''''"
  by (simp add: NewClientWithConfig_config NewClientWithConfig_http setDefaults_simps
      TrimRight_slash_def)

lemma setDefaults_zero_MaxRetries:
  "setDefaults (cfg\<lparr>MaxRetries := 0\<rparr>) = setDefaults (cfg\<lparr>MaxRetries := 3\<rparr>)"
  by (rule Config.equality) (simp_all add: setDefaults_simps DefaultMaxRetries_def)

lemma setDefaults_zero_Timeout:
  "setDefaults (cfg\<lparr>Timeout := 0\<rparr>) = setDefaults (cfg\<lparr>Timeout := 30 * Second\<rparr>)"
  by (rule Config.equality) (simp_all add: setDefaults_simps DefaultTimeout_def Second_def)

lemma setDefaults_zero_RetryWaitTime:
  "setDefaults (cfg\<lparr>RetryWaitTime := 0\<rparr>) = setDefaults (cfg\<lparr>RetryWaitTime := 1 * Second\<rparr>)"
  by (rule Config.equality) (simp_all add: setDefaults_simps Second_def)

lemma NewClientWithConfig_cong:
  "setDefaults a = setDefaults b \<Longrightarrow> NewClientWithConfig a = NewClientWithConfig b"
  by (simp add: NewClientWithConfig_def)

text \<open>
  C10: a configuration whose \<^verbatim>\<open>MaxRetries\<close>, \<^verbatim>\<open>Timeout\<close> or \<^verbatim>\<open>RetryWaitTime\<close> is zero
  gives the very client that the default value in that field gives (3 retries, 30
  seconds, 1 second). A zero cannot be told from an unset field, which in Go is the
  zero value too; in particular \<^verbatim>\<open>MaxRetries = 0\<close> leaves the retry count at 3.
\<close>

theorem explicit_zero_is_default:
  "NewClientWithConfig (cfg\<lparr>MaxRetries := 0\<rparr>) = NewClientWithConfig (cfg\<lparr>MaxRetries := 3\<rparr>) \<and>
   NewClientWithConfig (cfg\<lparr>Timeout := 0\<rparr>) = NewClientWithConfig (cfg\<lparr>Timeout := 30 * Second\<rparr>) \<and>
   NewClientWithConfig (cfg\<lparr>RetryWaitTime := 0\<rparr>) =
     NewClientWithConfig (cfg\<lparr>RetryWaitTime := 1 * Second\<rparr>) \<and>
   hcRetryCount (httpClient (NewClientWithConfig (cfg\<lparr>MaxRetries := 0\<rparr>))) = 3 \<and>
   hcTimeout (httpClient (NewClientWithConfig (cfg\<lparr>Timeout := 0\<rparr>))) = 30 * Second \<and>
   hcRetryWaitTime (httpClient (NewClientWithConfig (cfg\<lparr>RetryWaitTime := 0\<rparr>))) = 1 * Second"
proof -
  have a: "NewClientWithConfig (cfg\<lparr>MaxRetries := 0\<rparr>) = NewClientWithConfig (cfg\<lparr>MaxRetries := 3\<rparr>)"
    by (rule NewClientWithConfig_cong) (rule setDefaults_zero_MaxRetries)
  have b: "NewClientWithConfig (cfg\<lparr>Timeout := 0\<rparr>) =
      NewClientWithConfig (cfg\<lparr>Timeout := 30 * Second\<rparr>)"
    by (rule NewClientWithConfig_cong) (rule setDefaults_zero_Timeout)
  have c: "NewClientWithConfig (cfg\<lparr>RetryWaitTime := 0\<rparr>) =
      NewClientWithConfig (cfg\<lparr>RetryWaitTime := 1 * Second\<rparr>)"
    by (rule NewClientWithConfig_cong) (rule setDefaults_zero_RetryWaitTime)
  have d: "hcRetryCount (httpClient (NewClientWithConfig (cfg\<lparr>MaxRetries := 0\<rparr>))) = 3"
    by (simp add: NewClientWithConfig_http setDefaults_simps DefaultMaxRetries_def)
  have e: "hcTimeout (httpClient (NewClientWithConfig (cfg\<lparr>Timeout := 0\<rparr>))) = 30 * Second"
    by (simp add: NewClientWithConfig_http setDefaults_simps DefaultTimeout_def)
  have f: "hcRetryWaitTime (httpClient (NewClientWithConfig (cfg\<lparr>RetryWaitTime := 0\<rparr>))) =
      1 * Second"
    by (simp add: NewClientWithConfig_http setDefaults_simps)
  from a b c d e f show ?thesis by blast
qed

section \<open>Properties of requests and service methods\<close>

lemma Request_supported:
  assumes "verb = ''GET'' \<or> verb = ''POST'' \<or> verb = ''PUT'' \<or> verb = ''PATCH'' \<or> verb = ''DELETE''"
    and "T (outgoing (httpClient c) verb endpoint Map.empty body) result =
           ((resp, err), result', apiError)"
  shows "Request T c verb endpoint body result wire =
     ((if err \<noteq> None then err
       else if IsError resp then
         (if Message apiError \<noteq> '''' then Some (APIErr apiError)
          else Some (Errorf (''API error: '' @ Sprintf_d (StatusCode resp) @ '' '' @ Response.Status resp)))
       else None, result'),
      wire @ [outgoing (httpClient c) verb endpoint Map.empty body])"
proof -
  have "Request T c verb endpoint body result wire =
    (case execute T (outgoing (httpClient c) verb endpoint Map.empty body) result wire of
       (((resp, err), result', apiError), wire') \<Rightarrow>
             if err \<noteq> None then ((err, result'), wire')
             else if IsError resp then
               (if Message apiError \<noteq> ''''
                then ((Some (APIErr apiError), result'), wire')
                else ((Some (Errorf (''API error: '' @ Sprintf_d (StatusCode resp) @ '' ''
                                       @ Response.Status resp)), result'), wire'))
             else ((None, result'), wire'))"
    using assms(1) unfolding Request_def Let_def MethodGet_def MethodPost_def MethodPut_def
      MethodPatch_def MethodDelete_def
    by (elim disjE) simp_all
  then show ?thesis using assms(2) by (simp add: execute_def)
qed

lemma Get_eq:
  assumes "T (outgoing (httpClient c) ''GET'' endpoint params None) result =
             ((resp, err), result', apiError)"
  shows "Get T c endpoint params result wire =
     (if err \<noteq> None then Return (err, result')
      else if IsError resp then
        (case Error resp of
           None \<Rightarrow> Panic
         | Some apiErr \<Rightarrow>
             if Message apiErr \<noteq> '''' then Return (Some (APIErr apiErr), result')
             else Return (Some (Errorf (''API error: '' @ Sprintf_d (StatusCode resp))), result'))
      else Return (None, result'),
      wire @ [outgoing (httpClient c) ''GET'' endpoint params None])"
  using assms
  by (simp add: Get_def execute_def MethodGet_def split: option.splits)

lemma Get_wire:
  "snd (Get T c endpoint params result wire) =
     wire @ [outgoing (httpClient c) ''GET'' endpoint params None]"
proof -
  obtain resp err result' apiError where
    "T (outgoing (httpClient c) ''GET'' endpoint params None) result =
       ((resp, err), result', apiError)"
    by (metis surj_pair)
  from Get_eq [where T = T and wire = wire, OF this] show ?thesis by simp
qed

text \<open>
  C7: for every method string other than GET, POST, PUT, PATCH and DELETE (the
  comparison is exact, so lower-case names are among them) \<^verbatim>\<open>Request\<close> returns the
  error \<^verbatim>\<open>unsupported method: <method>\<close> at once: the result target and the list of
  requests handed to the transport are unchanged, whatever the transport is, so nothing
  is sent and nothing is retried.
\<close>

theorem Request_unsupported_method:
  assumes "verb \<notin> {''GET'', ''POST'', ''PUT'', ''PATCH'', ''DELETE''}"
  shows "Request T c verb endpoint body result wire =
           ((Some (Errorf (''unsupported method: '' @ verb)), result), wire)"
proof -
  from assms have "verb \<noteq> ''GET''" "verb \<noteq> ''POST''" "verb \<noteq> ''PUT''"
    "verb \<noteq> ''PATCH''" "verb \<noteq> ''DELETE''"
    by blast+
  then show ?thesis
    unfolding Request_def Let_def MethodGet_def MethodPost_def MethodPut_def
      MethodPatch_def MethodDelete_def
    by simp
qed

theorem Request_unsupported_method_witness:
  "''HEAD'' \<notin> {''GET'', ''POST'', ''PUT'', ''PATCH'', ''DELETE''} \<and>
   Request (\<lambda>rq r. ((\<lparr> StatusCode = 200, Status = ''200 OK'', Error = None \<rparr>, None), r,
                      APIError_zero))
     (NewClient ''key'') ''HEAD'' ''/projects'' None () [] =
     ((Some (Errorf ''unsupported method: HEAD''), ()), [])"
  using Request_unsupported_method [of "''HEAD''"
      "\<lambda>rq r. ((\<lparr> StatusCode = 200, Status = ''200 OK'', Error = None \<rparr>, None), r,
                APIError_zero)"
      "NewClient ''key''" "''/projects''" None "()" "[]"]
  by simp

lemma Sprintf_d_examples:
  "Sprintf_d 503 = ''503''" "Sprintf_d 1 = ''1''" "Sprintf_d 10 = ''10''" "Sprintf_d 0 = ''0''"
  "Sprintf_d (-7) = ''-7''"
  by (simp_all add: Sprintf_d_def digits.simps)

text \<open>
  As C2 is worded, \<^verbatim>\<open>Request\<close> and \<^verbatim>\<open>Get\<close> return no error on a 2xx response. They
  return the error of the library first, whatever the status: here the answer is 200 and
  the library reports that it could not decode the body.
\<close>

theorem error_returned_on_2xx:
  "StatusCode \<lparr> StatusCode = 200, Status = ''200 OK'', Error = None \<rparr> = 200 \<and>
   fst (fst (Request
      (\<lambda>rq r. ((\<lparr> StatusCode = 200, Status = ''200 OK'', Error = None \<rparr>,
                  Some (LibError ''unexpected end of JSON input'')), r, APIError_zero))
      (NewClient ''key'') ''POST'' ''/projects'' None () [])) =
     Some (LibError ''unexpected end of JSON input'') \<and>
   fst (Get
      (\<lambda>rq r. ((\<lparr> StatusCode = 200, Status = ''200 OK'', Error = None \<rparr>,
                  Some (LibError ''unexpected end of JSON input'')), r, APIError_zero))
      (NewClient ''key'') ''/projects/p1'' Map.empty () []) =
     Return (Some (LibError ''unexpected end of JSON input''), ())"
proof -
  have "fst (fst (Request
      (\<lambda>rq r. ((\<lparr> StatusCode = 200, Status = ''200 OK'', Error = None \<rparr>,
                  Some (LibError ''unexpected end of JSON input'')), r, APIError_zero))
      (NewClient ''key'') ''POST'' ''/projects'' None () [])) =
     Some (LibError ''unexpected end of JSON input'')"
    by (subst Request_supported [where resp = "\<lparr> StatusCode = 200, Status = ''200 OK'', Error = None \<rparr>"
          and err = "Some (LibError ''unexpected end of JSON input'')" and result' = "()"
          and apiError = APIError_zero]) simp_all
  moreover have "fst (Get
      (\<lambda>rq r. ((\<lparr> StatusCode = 200, Status = ''200 OK'', Error = None \<rparr>,
                  Some (LibError ''unexpected end of JSON input'')), r, APIError_zero))
      (NewClient ''key'') ''/projects/p1'' Map.empty () []) =
     Return (Some (LibError ''unexpected end of JSON input''), ())"
    by (subst Get_eq [where resp = "\<lparr> StatusCode = 200, Status = ''200 OK'', Error = None \<rparr>"
          and err = "Some (LibError ''unexpected end of JSON input'')" and result' = "()"
          and apiError = APIError_zero]) simp_all
  ultimately show ?thesis by simp
qed

text \<open>
  C2: \<^verbatim>\<open>Request\<close> (with a supported verb) and \<^verbatim>\<open>Get\<close> return the error of the library
  when there is one, whatever the status. When there is none and the response is flagged
  as an error status, \<^verbatim>\<open>Request\<close> returns the decoded \<^verbatim>\<open>APIError\<close> if its message is
  not empty, and otherwise a generic error whose text carries the status code (followed
  by the status line); \<^verbatim>\<open>Get\<close> does the same with the error target the response
  holds. On a 2xx response without an error of the library they return no error.
\<close>

theorem error_status_precedence:
  "((verb = ''GET'' \<or> verb = ''POST'' \<or> verb = ''PUT'' \<or> verb = ''PATCH'' \<or>
     verb = ''DELETE'') \<and>
    T (outgoing (httpClient c) verb endpoint Map.empty body) result =
      ((resp, err), result', apiError) \<longrightarrow>
      (err \<noteq> None \<longrightarrow>
         fst (fst (Request T c verb endpoint body result wire)) = err) \<and>
      (err = None \<and> IsError resp \<and> Message apiError \<noteq> '''' \<longrightarrow>
         fst (fst (Request T c verb endpoint body result wire)) = Some (APIErr apiError)) \<and>
      (err = None \<and> IsError resp \<and> Message apiError = '''' \<longrightarrow>
         fst (fst (Request T c verb endpoint body result wire)) =
           Some (Errorf (''API error: '' @ Sprintf_d (StatusCode resp) @ '' '' @ Response.Status resp))) \<and>
      (err = None \<and> 200 \<le> StatusCode resp \<and> StatusCode resp \<le> 299 \<longrightarrow>
         fst (fst (Request T c verb endpoint body result wire)) = None)) \<and>
   (G (outgoing (httpClient c) ''GET'' endpoint params None) result =
      ((resp, err), result', apiError) \<longrightarrow>
      (err \<noteq> None \<longrightarrow>
         fst (Get G c endpoint params result wire) = Return (err, result')) \<and>
      (err = None \<and> IsError resp \<and> Error resp = Some apiErr \<and> Message apiErr \<noteq> '''' \<longrightarrow>
         fst (Get G c endpoint params result wire) = Return (Some (APIErr apiErr), result')) \<and>
      (err = None \<and> IsError resp \<and> Error resp = Some apiErr \<and> Message apiErr = '''' \<longrightarrow>
         fst (Get G c endpoint params result wire) =
           Return (Some (Errorf (''API error: '' @ Sprintf_d (StatusCode resp))), result')) \<and>
      (err = None \<and> 200 \<le> StatusCode resp \<and> StatusCode resp \<le> 299 \<longrightarrow>
         fst (Get G c endpoint params result wire) = Return (None, result')))"
proof -
  have req: "fst (fst (Request T c verb endpoint body result wire)) =
       (if err \<noteq> None then err
        else if IsError resp then
         (if Message apiError \<noteq> '''' then Some (APIErr apiError)
          else Some (Errorf (''API error: '' @ Sprintf_d (StatusCode resp) @ '' '' @ Response.Status resp)))
        else None)"
    if "verb = ''GET'' \<or> verb = ''POST'' \<or> verb = ''PUT'' \<or> verb = ''PATCH'' \<or>
        verb = ''DELETE''"
      and "T (outgoing (httpClient c) verb endpoint Map.empty body) result =
             ((resp, err), result', apiError)"
    using Request_supported [where T = T and wire = wire, OF that] by simp
  have get: "fst (Get G c endpoint params result wire) =
       (if err \<noteq> None then Return (err, result')
        else if IsError resp then
          (case Error resp of
             None \<Rightarrow> Panic
           | Some apiErr \<Rightarrow>
               if Message apiErr \<noteq> '''' then Return (Some (APIErr apiErr), result')
               else Return (Some (Errorf (''API error: '' @ Sprintf_d (StatusCode resp))), result'))
        else Return (None, result'))"
    if "G (outgoing (httpClient c) ''GET'' endpoint params None) result =
          ((resp, err), result', apiError)"
    using Get_eq [where T = G and wire = wire, OF that] by simp
  have ok: "\<not> IsError resp" if "200 \<le> StatusCode resp \<and> StatusCode resp \<le> 299"
    using that by (simp add: IsError_def)
  show ?thesis
    using req get ok by auto
qed

theorem error_status_precedence_witness:
  "fst (fst (Request
      (\<lambda>rq r. ((\<lparr> StatusCode = 404, Status = ''404 Not Found'',
                    Error = Some (APIError_zero\<lparr>Message := ''no such project''\<rparr>) \<rparr>, None), r,
                  APIError_zero\<lparr>Message := ''no such project''\<rparr>))
      (NewClient ''key'') ''POST'' ''/projects'' None () [])) =
     Some (APIErr (APIError_zero\<lparr>Message := ''no such project''\<rparr>)) \<and>
   fst (fst (Request
      (\<lambda>rq r. ((\<lparr> StatusCode = 503, Status = ''503 Service Unavailable'',
                    Error = Some APIError_zero \<rparr>, None), r, APIError_zero))
      (NewClient ''key'') ''POST'' ''/projects'' None () [])) =
     Some (Errorf ''API error: 503 503 Service Unavailable'') \<and>
   fst (fst (Request
      (\<lambda>rq r. ((\<lparr> StatusCode = 200, Status = ''200 OK'', Error = None \<rparr>, None), r,
                  APIError_zero))
      (NewClient ''key'') ''POST'' ''/projects'' None () [])) = None \<and>
   fst (fst (Request
      (\<lambda>rq r. ((\<lparr> StatusCode = 0, Status = '''', Error = None \<rparr>,
                  Some (LibError ''dial tcp: timeout'')), r, APIError_zero))
      (NewClient ''key'') ''POST'' ''/projects'' None () [])) =
     Some (LibError ''dial tcp: timeout'') \<and>
   fst (Get
      (\<lambda>rq r. ((\<lparr> StatusCode = 404, Status = ''404 Not Found'',
                    Error = Some (APIError_zero\<lparr>Message := ''no such project''\<rparr>) \<rparr>, None), r,
                  APIError_zero\<lparr>Message := ''no such project''\<rparr>))
      (NewClient ''key'') ''/projects/p1'' Map.empty () []) =
     Return (Some (APIErr (APIError_zero\<lparr>Message := ''no such project''\<rparr>)), ()) \<and>
   fst (Get
      (\<lambda>rq r. ((\<lparr> StatusCode = 503, Status = ''503 Service Unavailable'',
                    Error = Some APIError_zero \<rparr>, None), r, APIError_zero))
      (NewClient ''key'') ''/projects/p1'' Map.empty () []) =
     Return (Some (Errorf ''API error: 503''), ()) \<and>
   fst (Get
      (\<lambda>rq r. ((\<lparr> StatusCode = 200, Status = ''200 OK'', Error = None \<rparr>, None), r,
                  APIError_zero))
      (NewClient ''key'') ''/projects/p1'' Map.empty () []) = Return (None, ()) \<and>
   fst (Get
      (\<lambda>rq r. ((\<lparr> StatusCode = 0, Status = '''', Error = None \<rparr>,
                  Some (LibError ''dial tcp: timeout'')), r, APIError_zero))
      (NewClient ''key'') ''/projects/p1'' Map.empty () []) =
     Return (Some (LibError ''dial tcp: timeout''), ())"
  using
    error_status_precedence [where verb = "''POST''" and c = "NewClient ''key''"
      and endpoint = "''/projects''" and body = None and result = "()" and result' = "()"
      and wire = "[]" and params = Map.empty and err = None
      and apiError = "APIError_zero\<lparr>Message := ''no such project''\<rparr>"
      and apiErr = "APIError_zero\<lparr>Message := ''no such project''\<rparr>"
      and resp = "\<lparr> StatusCode = 404, Status = ''404 Not Found'',
                    Error = Some (APIError_zero\<lparr>Message := ''no such project''\<rparr>) \<rparr>"
      and T = "\<lambda>rq r. ((\<lparr> StatusCode = 404, Status = ''404 Not Found'',
                    Error = Some (APIError_zero\<lparr>Message := ''no such project''\<rparr>) \<rparr>, None), r,
                  APIError_zero\<lparr>Message := ''no such project''\<rparr>)"
      and G = "\<lambda>rq r. ((\<lparr> StatusCode = 200, Status = ''200 OK'', Error = None \<rparr>, None), r,
                  APIError_zero)"]
    error_status_precedence [where verb = "''POST''" and c = "NewClient ''key''"
      and endpoint = "''/projects''" and body = None and result = "()" and result' = "()"
      and wire = "[]" and params = Map.empty and err = None
      and apiError = APIError_zero and apiErr = APIError_zero
      and resp = "\<lparr> StatusCode = 503, Status = ''503 Service Unavailable'',
                    Error = Some APIError_zero \<rparr>"
      and T = "\<lambda>rq r. ((\<lparr> StatusCode = 503, Status = ''503 Service Unavailable'',
                    Error = Some APIError_zero \<rparr>, None), r, APIError_zero)"
      and G = "\<lambda>rq r. ((\<lparr> StatusCode = 200, Status = ''200 OK'', Error = None \<rparr>, None), r,
                  APIError_zero)"]
    error_status_precedence [where verb = "''POST''" and c = "NewClient ''key''"
      and endpoint = "''/projects''" and body = None and result = "()" and result' = "()"
      and wire = "[]" and params = Map.empty and err = None
      and apiError = APIError_zero and apiErr = APIError_zero
      and resp = "\<lparr> StatusCode = 200, Status = ''200 OK'', Error = None \<rparr>"
      and T = "\<lambda>rq r. ((\<lparr> StatusCode = 200, Status = ''200 OK'', Error = None \<rparr>, None), r,
                  APIError_zero)"
      and G = "\<lambda>rq r. ((\<lparr> StatusCode = 200, Status = ''200 OK'', Error = None \<rparr>, None), r,
                  APIError_zero)"]
    error_status_precedence [where verb = "''POST''" and c = "NewClient ''key''"
      and endpoint = "''/projects''" and body = None and result = "()" and result' = "()"
      and wire = "[]" and params = Map.empty and err = "Some (LibError ''dial tcp: timeout'')"
      and apiError = APIError_zero and apiErr = APIError_zero
      and resp = "\<lparr> StatusCode = 0, Status = '''', Error = None \<rparr>"
      and T = "\<lambda>rq r. ((\<lparr> StatusCode = 0, Status = '''', Error = None \<rparr>,
                  Some (LibError ''dial tcp: timeout'')), r, APIError_zero)"
      and G = "\<lambda>rq r. ((\<lparr> StatusCode = 200, Status = ''200 OK'', Error = None \<rparr>, None), r,
                  APIError_zero)"]
    error_status_precedence [where verb = "''GET''" and c = "NewClient ''key''"
      and endpoint = "''/projects/p1''" and body = None and result = "()" and result' = "()"
      and wire = "[]" and params = Map.empty and err = None
      and apiError = "APIError_zero\<lparr>Message := ''no such project''\<rparr>"
      and apiErr = "APIError_zero\<lparr>Message := ''no such project''\<rparr>"
      and resp = "\<lparr> StatusCode = 404, Status = ''404 Not Found'',
                    Error = Some (APIError_zero\<lparr>Message := ''no such project''\<rparr>) \<rparr>"
      and G = "\<lambda>rq r. ((\<lparr> StatusCode = 404, Status = ''404 Not Found'',
                    Error = Some (APIError_zero\<lparr>Message := ''no such project''\<rparr>) \<rparr>, None), r,
                  APIError_zero\<lparr>Message := ''no such project''\<rparr>)"
      and T = "\<lambda>rq r. ((\<lparr> StatusCode = 200, Status = ''200 OK'', Error = None \<rparr>, None), r,
                  APIError_zero)"]
    error_status_precedence [where verb = "''GET''" and c = "NewClient ''key''"
      and endpoint = "''/projects/p1''" and body = None and result = "()" and result' = "()"
      and wire = "[]" and params = Map.empty and err = None
      and apiError = APIError_zero and apiErr = APIError_zero
      and resp = "\<lparr> StatusCode = 503, Status = ''503 Service Unavailable'',
                    Error = Some APIError_zero \<rparr>"
      and G = "\<lambda>rq r. ((\<lparr> StatusCode = 503, Status = ''503 Service Unavailable'',
                    Error = Some APIError_zero \<rparr>, None), r, APIError_zero)"
      and T = "\<lambda>rq r. ((\<lparr> StatusCode = 200, Status = ''200 OK'', Error = None \<rparr>, None), r,
                  APIError_zero)"]
    error_status_precedence [where verb = "''GET''" and c = "NewClient ''key''"
      and endpoint = "''/projects/p1''" and body = None and result = "()" and result' = "()"
      and wire = "[]" and params = Map.empty and err = None
      and apiError = APIError_zero and apiErr = APIError_zero
      and resp = "\<lparr> StatusCode = 200, Status = ''200 OK'', Error = None \<rparr>"
      and G = "\<lambda>rq r. ((\<lparr> StatusCode = 200, Status = ''200 OK'', Error = None \<rparr>, None), r,
                  APIError_zero)"
      and T = "\<lambda>rq r. ((\<lparr> StatusCode = 200, Status = ''200 OK'', Error = None \<rparr>, None), r,
                  APIError_zero)"]
    error_status_precedence [where verb = "''GET''" and c = "NewClient ''key''"
      and endpoint = "''/projects/p1''" and body = None and result = "()" and result' = "()"
      and wire = "[]" and params = Map.empty and err = "Some (LibError ''dial tcp: timeout'')"
      and apiError = APIError_zero and apiErr = APIError_zero
      and resp = "\<lparr> StatusCode = 0, Status = '''', Error = None \<rparr>"
      and G = "\<lambda>rq r. ((\<lparr> StatusCode = 0, Status = '''', Error = None \<rparr>,
                  Some (LibError ''dial tcp: timeout'')), r, APIError_zero)"
      and T = "\<lambda>rq r. ((\<lparr> StatusCode = 200, Status = ''200 OK'', Error = None \<rparr>, None), r,
                  APIError_zero)"]
  by (simp add: IsError_def Sprintf_d_examples APIError_zero_def)

text \<open>
  When the response is flagged as an error status and holds no error target,
  \<^verbatim>\<open>Request\<close> returns the generic error and \<^verbatim>\<open>Get\<close> panics.
\<close>

lemma Get_panics_without_error_target:
  assumes "G (outgoing (httpClient c) ''GET'' endpoint params None) result =
             ((resp, None), result', apiError)"
    and "IsError resp" and "Error resp = None"
  shows "fst (Get G c endpoint params result wire) = Panic"
  using Get_eq [where T = G and wire = wire, OF assms(1)] assms(2,3) by simp

lemma Get_panics_example:
  "fst (Get
      (\<lambda>rq r. ((\<lparr> StatusCode = 404, Status = ''404 Not Found'', Error = None \<rparr>, None), r,
                  APIError_zero))
      (NewClient ''key'') ''/projects/p1'' Map.empty () []) = Panic \<and>
   fst (fst (Request
      (\<lambda>rq r. ((\<lparr> StatusCode = 404, Status = ''404 Not Found'', Error = None \<rparr>, None), r,
                  APIError_zero))
      (NewClient ''key'') ''GET'' ''/projects/p1'' None () [])) =
     Some (Errorf ''API error: 404 404 Not Found'')"
proof -
  have "fst (Get
      (\<lambda>rq r. ((\<lparr> StatusCode = 404, Status = ''404 Not Found'', Error = None \<rparr>, None), r,
                  APIError_zero))
      (NewClient ''key'') ''/projects/p1'' Map.empty () []) = Panic"
    by (rule Get_panics_without_error_target
          [where resp = "\<lparr> StatusCode = 404, Status = ''404 Not Found'', Error = None \<rparr>"
             and result' = "()" and apiError = APIError_zero])
       (simp_all add: IsError_def)
  moreover have "fst (fst (Request
      (\<lambda>rq r. ((\<lparr> StatusCode = 404, Status = ''404 Not Found'', Error = None \<rparr>, None), r,
                  APIError_zero))
      (NewClient ''key'') ''GET'' ''/projects/p1'' None () [])) =
     Some (Errorf ''API error: 404 404 Not Found'')"
    by (subst Request_supported
          [where resp = "\<lparr> StatusCode = 404, Status = ''404 Not Found'', Error = None \<rparr>"
             and err = None and result' = "()" and apiError = APIError_zero])
       (simp_all add: IsError_def APIError_zero_def Sprintf_d_def digits.simps)
  ultimately show ?thesis by simp
qed

lemma Projects_List_wire:
  "snd (Projects_List T c opts result0 wire) =
     wire @ [outgoing (httpClient c) ''GET'' ''/projects'' (List_params opts) None]"
proof -
  have "snd (Projects_List T c opts result0 wire) =
        snd (Get T c ''/projects'' (List_params opts) result0 wire)"
    by (simp add: Projects_List_def split: prod.splits returns.splits)
  then show ?thesis by (simp add: Get_wire)
qed

lemma List_params_Some:
  "List_params (Some opt) k =
     (if k = ''sort_order'' \<and> SortOrder opt \<noteq> '''' then Some (SortOrder opt)
      else if k = ''sort_by'' \<and> SortBy opt \<noteq> '''' then Some (SortBy opt)
      else if k = ''limit'' \<and> Limit opt > 0 then Some (Sprintf_d (Limit opt))
      else if k = ''page'' \<and> Page opt > 0 then Some (Sprintf_d (Page opt))
      else if k = ''status'' \<and> ListProjectsOptions.Status opt \<noteq> '''' then Some (ListProjectsOptions.Status opt)
      else None)"
  by (simp add: List_params_def Let_def)

text \<open>
  C9: \<^verbatim>\<open>ProjectsService.List\<close> with the options status \<^verbatim>\<open>active\<close>, page 1, limit 10
  and no sort fields hands the transport one request, whose query parameters are exactly
  status = active, page = 1, limit = 10. In general the request carries the parameters
  built from the options, a field that is zero or empty never appears among them, and
  no other key than the five of the options does.
\<close>

theorem Projects_List_query_params:
  "map rqQueryParam (snd (Projects_List T c
       (Some \<lparr> Status = ''active'', Page = 1, Limit = 10, SortBy = '''', SortOrder = '''' \<rparr>)
       init [])) =
     [[''status'' \<mapsto> ''active'', ''page'' \<mapsto> ''1'', ''limit'' \<mapsto> ''10'']] \<and>
   dom (List_params
       (Some \<lparr> Status = ''active'', Page = 1, Limit = 10, SortBy = '''', SortOrder = '''' \<rparr>)) =
     {''status'', ''page'', ''limit''} \<and>
   map rqQueryParam (snd (Projects_List T c opts init wire)) =
     map rqQueryParam wire @ [List_params opts] \<and>
   (ListProjectsOptions.Status opt = '''' \<longrightarrow> List_params (Some opt) ''status'' = None) \<and>
   (Page opt = 0 \<longrightarrow> List_params (Some opt) ''page'' = None) \<and>
   (Limit opt = 0 \<longrightarrow> List_params (Some opt) ''limit'' = None) \<and>
   (SortBy opt = '''' \<longrightarrow> List_params (Some opt) ''sort_by'' = None) \<and>
   (SortOrder opt = '''' \<longrightarrow> List_params (Some opt) ''sort_order'' = None) \<and>
   dom (List_params (Some opt)) \<subseteq> {''status'', ''page'', ''limit'', ''sort_by'', ''sort_order''} \<and>
   List_params None = Map.empty"
proof -
  have s: "List_params
       (Some \<lparr> Status = ''active'', Page = 1, Limit = 10, SortBy = '''', SortOrder = '''' \<rparr>) =
     [''status'' \<mapsto> ''active'', ''page'' \<mapsto> ''1'', ''limit'' \<mapsto> ''10'']"
    by (simp add: List_params_def Let_def Sprintf_d_examples)
  have a: "map rqQueryParam (snd (Projects_List T c
       (Some \<lparr> Status = ''active'', Page = 1, Limit = 10, SortBy = '''', SortOrder = '''' \<rparr>)
       init [])) =
     [[''status'' \<mapsto> ''active'', ''page'' \<mapsto> ''1'', ''limit'' \<mapsto> ''10'']]"
    by (simp add: Projects_List_wire outgoing_def s)
  have b: "dom (List_params
       (Some \<lparr> Status = ''active'', Page = 1, Limit = 10, SortBy = '''', SortOrder = '''' \<rparr>)) =
     {''status'', ''page'', ''limit''}"
    unfolding s by auto
  have c: "map rqQueryParam (snd (Projects_List T c opts init wire)) =
     map rqQueryParam wire @ [List_params opts]"
    by (simp add: Projects_List_wire outgoing_def)
  have d: "dom (List_params (Some opt)) \<subseteq> {''status'', ''page'', ''limit'', ''sort_by'', ''sort_order''}"
    by (auto simp add: List_params_Some dom_def split: if_splits)
  have e: "List_params None = Map.empty"
    by (simp add: List_params_def)
  from a b c d e show ?thesis
    by (simp add: List_params_Some)
qed

theorem Projects_List_query_params_witness:
  "List_params
     (Some \<lparr> Status = '''', Page = 0, Limit = 0, SortBy = '''', SortOrder = '''' \<rparr>) ''status'' = None \<and>
   List_params
     (Some \<lparr> Status = '''', Page = 0, Limit = 0, SortBy = '''', SortOrder = '''' \<rparr>) ''page'' = None \<and>
   List_params
     (Some \<lparr> Status = '''', Page = 0, Limit = 0, SortBy = '''', SortOrder = '''' \<rparr>) ''limit'' = None \<and>
   List_params
     (Some \<lparr> Status = '''', Page = 0, Limit = 0, SortBy = '''', SortOrder = '''' \<rparr>) ''sort_by'' = None \<and>
   List_params
     (Some \<lparr> Status = '''', Page = 0, Limit = 0, SortBy = '''', SortOrder = '''' \<rparr>) ''sort_order'' = None"
  using Projects_List_query_params [where
      opt = "\<lparr> Status = '''', Page = 0, Limit = 0, SortBy = '''', SortOrder = '''' \<rparr>"
      and opts = None and wire = "[]" and init = "()" and c = "NewClient ''key''"
      and T = "\<lambda>rq r. ((\<lparr> StatusCode = 200, Status = ''200 OK'', Error = None \<rparr>, None), r,
                  APIError_zero)"]
  by simp

lemma NewClientWithConfig_header:
  "hcHeader (httpClient (NewClientWithConfig cfg)) k =
     (if k = ''X-API-Key'' \<and> APIKey cfg \<noteq> '''' then Some (APIKey cfg)
      else if k = ''Content-Type'' then Some ''application/json''
      else if k = ''Accept'' then Some ''application/json''
      else if k = ''User-Agent'' then Some ''XRPL.Sale-Go-SDK/1.0.0''
      else None)"
  by (simp add: NewClientWithConfig_def Let_def setDefaults_simps Version_def)

lemma SetAuthToken_simps:
  "authToken (SetAuthToken c token) = token"
  "hcToken (httpClient (SetAuthToken c token)) = token"
  "hcHeader (httpClient (SetAuthToken c token)) = hcHeader (httpClient c)"
  "hcBaseURL (httpClient (SetAuthToken c token)) = hcBaseURL (httpClient c)"
  "config (SetAuthToken c token) = config c"
  by (simp_all add: SetAuthToken_def)

lemma outgoing_header:
  "rqHeader (outgoing h verb endpoint params body) k =
     (if \<not> IsStringEmpty (hcToken h) \<and> k = ''Authorization'' then Some (''Bearer '' @ hcToken h)
      else hcHeader h k)"
  by (simp add: outgoing_def)

lemma IsStringEmpty_examples:
  "IsStringEmpty ''''" "IsStringEmpty '' ''" "\<not> IsStringEmpty ''tok123''"
  "IsStringEmpty [CHR 0x09, CHR 0xC2, CHR 0xA0, CHR 0xE3, CHR 0x80, CHR 0x80]"
  "\<not> IsStringEmpty '' x ''"
  by simp_all

text \<open>
  As C6 is worded, a bearer header is attached once a token has been set. The library
  attaches none for a token of white space: here the token is one blank.
\<close>

theorem no_bearer_header_for_blank_token:
  "hcToken (httpClient (SetAuthToken (NewClient '''') '' '')) = '' '' \<and>
   rqHeader (outgoing (httpClient (SetAuthToken (NewClient '''') '' ''))
     ''GET'' ''/projects'' Map.empty None) ''Authorization'' = None"
  by (simp add: outgoing_header SetAuthToken_simps NewClient_def NewClientWithConfig_header)

text \<open>
  C6: every request of a client built by \<^verbatim>\<open>NewClientWithConfig\<close> carries the
  User-Agent, Accept and Content-Type headers; it carries \<^verbatim>\<open>X-API-Key\<close> exactly when
  the configured API key is not empty, and \<^verbatim>\<open>Authorization: Bearer <token>\<close> exactly
  when a token has been set that does not consist of white space only (both headers,
  when both are set). With an empty API key and the default configuration the base URL
  is the production endpoint and there is no \<^verbatim>\<open>X-API-Key\<close> header. \<^verbatim>\<open>Get\<close> and
  \<^verbatim>\<open>Request\<close> hand exactly this request to the transport.
\<close>

theorem request_headers:
  "rqHeader (outgoing (httpClient (NewClientWithConfig cfg)) verb endpoint params body)
       ''User-Agent'' = Some ''XRPL.Sale-Go-SDK/1.0.0'' \<and>
   rqHeader (outgoing (httpClient (NewClientWithConfig cfg)) verb endpoint params body)
       ''Accept'' = Some ''application/json'' \<and>
   rqHeader (outgoing (httpClient (NewClientWithConfig cfg)) verb endpoint params body)
       ''Content-Type'' = Some ''application/json'' \<and>
   rqHeader (outgoing (httpClient (NewClientWithConfig cfg)) verb endpoint params body)
       ''X-API-Key'' = (if APIKey cfg = '''' then None else Some (APIKey cfg)) \<and>
   rqHeader (outgoing (httpClient (NewClientWithConfig cfg)) verb endpoint params body)
       ''Authorization'' = None \<and>
   rqHeader (outgoing (httpClient (SetAuthToken (NewClientWithConfig cfg) token))
               verb endpoint params body) ''Authorization'' =
     (if IsStringEmpty token then None else Some (''Bearer '' @ token)) \<and>
   rqHeader (outgoing (httpClient (SetAuthToken (NewClientWithConfig cfg) token))
               verb endpoint params body) ''User-Agent'' = Some ''XRPL.Sale-Go-SDK/1.0.0'' \<and>
   rqHeader (outgoing (httpClient (SetAuthToken (NewClientWithConfig cfg) token))
               verb endpoint params body) ''Accept'' = Some ''application/json'' \<and>
   rqHeader (outgoing (httpClient (SetAuthToken (NewClientWithConfig cfg) token))
               verb endpoint params body) ''Content-Type'' = Some ''application/json'' \<and>
   rqHeader (outgoing (httpClient (SetAuthToken (NewClientWithConfig cfg) token))
               verb endpoint params body) ''X-API-Key'' =
     (if APIKey cfg = '''' then None else Some (APIKey cfg)) \<and>
   (APIKey cfg = '''' \<and> BaseURL cfg = '''' \<and>
    (Environment cfg = '''' \<or> Environment cfg = ''production'') \<longrightarrow>
      hcBaseURL (httpClient (NewClientWithConfig cfg)) = ''https://api.xrpl.sale/v1'' \<and>
      rqHeader (outgoing (httpClient (NewClientWithConfig cfg)) verb endpoint params body)
        ''X-API-Key'' = None) \<and>
   snd (Get T c endpoint params result wire) =
     wire @ [outgoing (httpClient c) ''GET'' endpoint params None] \<and>
   (verb = ''GET'' \<or> verb = ''POST'' \<or> verb = ''PUT'' \<or> verb = ''PATCH'' \<or>
    verb = ''DELETE'' \<longrightarrow>
      snd (Request T c verb endpoint body result wire) =
        wire @ [outgoing (httpClient c) verb endpoint Map.empty body])"
proof -
  have r: "snd (Request T c verb endpoint body result wire) =
        wire @ [outgoing (httpClient c) verb endpoint Map.empty body]"
    if "verb = ''GET'' \<or> verb = ''POST'' \<or> verb = ''PUT'' \<or> verb = ''PATCH'' \<or>
        verb = ''DELETE''"
  proof -
    obtain resp err result' apiError where
      "T (outgoing (httpClient c) verb endpoint Map.empty body) result =
         ((resp, err), result', apiError)"
      by (metis surj_pair)
    from Request_supported [where T = T and wire = wire, OF that this] show ?thesis
      by simp
  qed
  have u: "BaseURL cfg = '''' \<and> (Environment cfg = '''' \<or> Environment cfg = ''production'') \<longrightarrow>
      hcBaseURL (httpClient (NewClientWithConfig cfg)) = ''https://api.xrpl.sale/v1''"
    by (simp add: NewClientWithConfig_http setDefaults_simps Production_def Testnet_def
        ProductionBaseURL_def TrimRight_slash_defaults)
  show ?thesis
    using r u
    by (simp add: outgoing_header NewClientWithConfig_header NewClientWithConfig_http
        SetAuthToken_simps Get_wire)
qed

theorem request_headers_witness:
  "hcBaseURL (httpClient (NewClient '''')) = ''https://api.xrpl.sale/v1'' \<and>
   rqHeader (outgoing (httpClient (NewClient '''')) ''GET'' ''/projects'' Map.empty None)
     ''X-API-Key'' = None \<and>
   rqHeader (outgoing (httpClient (SetAuthToken (NewClient '''') ''tok123''))
     ''GET'' ''/projects'' Map.empty None) ''Authorization'' = Some ''Bearer tok123'' \<and>
   snd (Request (\<lambda>rq r. ((\<lparr> StatusCode = 200, Status = ''200 OK'', Error = None \<rparr>, None), r,
                           APIError_zero))
          (NewClient '''') ''GET'' ''/projects'' None () []) =
     [outgoing (httpClient (NewClient '''')) ''GET'' ''/projects'' Map.empty None]"
  using request_headers [where
      cfg = "\<lparr> APIKey = '''', Environment = Production, BaseURL = '''',
               Timeout = 0, MaxRetries = 0, RetryWaitTime = 0, WebhookSecret = '''', Debug = False \<rparr>"
      and token = "''tok123''" and verb = "''GET''" and endpoint = "''/projects''"
      and params = Map.empty and body = None and c = "NewClient ''''" and result = "()"
      and wire = "[]"
      and T = "\<lambda>rq r. ((\<lparr> StatusCode = 200, Status = ''200 OK'', Error = None \<rparr>, None), r,
                  APIError_zero)"]
  by (simp add: NewClient_def Production_def)

lemma Auth_Authenticate_client:
  assumes "T (outgoing (httpClient c) ''POST'' ''/auth/wallet'' Map.empty (Some (Payload authReq)))
             \<lparr> Token = '''' \<rparr> = ((resp, err), response, apiError)"
  shows "snd (fst (Auth_Authenticate T c authReq wire)) =
           (if err = None \<and> \<not> IsError resp \<and> Token response \<noteq> ''''
            then SetAuthToken c (Token response) else c)"
  using Request_supported [where T = T and wire = wire and verb = "''POST''", OF _ assms]
  by (auto simp add: Auth_Authenticate_def Post_def MethodPost_def)

lemma Auth_Refresh_client:
  assumes "T (outgoing (httpClient c) ''POST'' ''/auth/refresh'' Map.empty
                (Some (Fields [(''refresh_token'', refreshToken)])))
             \<lparr> Token = '''' \<rparr> = ((resp, err), response, apiError)"
  shows "snd (fst (Auth_Refresh T c refreshToken wire)) =
           (if err = None \<and> \<not> IsError resp \<and> Token response \<noteq> ''''
            then SetAuthToken c (Token response) else c)"
  using Request_supported [where T = T and wire = wire and verb = "''POST''", OF _ assms]
  by (auto simp add: Auth_Refresh_def Post_def MethodPost_def)

lemma SetAuthToken_fold_header:
  "hcHeader (httpClient (foldl SetAuthToken c tokens)) = hcHeader (httpClient c)"
  by (induction tokens arbitrary: c) (simp_all add: SetAuthToken_simps)

text \<open>
  As C4 is worded, the requests after a successful \<^verbatim>\<open>Authenticate\<close> carry the returned
  token as bearer header. Here the call succeeds and returns a token of one blank: the
  client stores it, and the next request has no \<^verbatim>\<open>Authorization\<close> header.
\<close>

theorem Authenticate_blank_token_no_header:
  "authToken (snd (fst (Auth_Authenticate
       (\<lambda>rq r. ((\<lparr> StatusCode = 200, Status = ''200 OK'', Error = None \<rparr>, None),
                 \<lparr> Token = '' '' \<rparr>, APIError_zero))
       (NewClient ''key'') ''signed challenge'' []))) = '' '' \<and>
   rqHeader (outgoing (httpClient (snd (fst (Auth_Authenticate
       (\<lambda>rq r. ((\<lparr> StatusCode = 200, Status = ''200 OK'', Error = None \<rparr>, None),
                 \<lparr> Token = '' '' \<rparr>, APIError_zero))
       (NewClient ''key'') ''signed challenge'' []))))
     ''GET'' ''/auth/profile'' Map.empty None) ''Authorization'' = None"
proof -
  have "snd (fst (Auth_Authenticate
       (\<lambda>rq r. ((\<lparr> StatusCode = 200, Status = ''200 OK'', Error = None \<rparr>, None),
                 \<lparr> Token = '' '' \<rparr>, APIError_zero))
       (NewClient ''key'') ''signed challenge'' [])) = SetAuthToken (NewClient ''key'') '' ''"
    by (simp add: Auth_Authenticate_client
        [where resp = "\<lparr> StatusCode = 200, Status = ''200 OK'', Error = None \<rparr>"
           and err = None and response = "\<lparr> Token = '' '' \<rparr>" and apiError = APIError_zero]
        IsError_def)
  then show ?thesis
    by (simp add: SetAuthToken_simps outgoing_header NewClient_def NewClientWithConfig_header)
qed

text \<open>
  C4: when the call of \<^verbatim>\<open>Authenticate\<close> (or \<^verbatim>\<open>Refresh\<close>) succeeds and the response
  holds a non-empty token, the client afterwards stores that token, and every later
  request carries it as bearer header unless the token consists of white space only.
  In that case the request has the \<^verbatim>\<open>Authorization\<close> header of the client's fixed
  headers, and a client built by \<^verbatim>\<open>NewClientWithConfig\<close> has none there, whatever
  tokens were set afterwards. When the call fails, by an error of the library or by an
  error status, the client is returned as it was, so a token stored before is neither
  cleared nor changed.
\<close>

theorem auth_token_set_on_success_only:
  "(T (outgoing (httpClient c) ''POST'' ''/auth/wallet'' Map.empty (Some (Payload authReq)))
      \<lparr> Token = '''' \<rparr> = ((resp, err), response, apiError) \<longrightarrow>
      (err = None \<and> \<not> IsError resp \<and> Token response \<noteq> '''' \<longrightarrow>
         authToken (snd (fst (Auth_Authenticate T c authReq wire))) = Token response \<and>
         hcToken (httpClient (snd (fst (Auth_Authenticate T c authReq wire)))) = Token response \<and>
         rqHeader (outgoing (httpClient (snd (fst (Auth_Authenticate T c authReq wire))))
                     verb endpoint params body) ''Authorization'' =
           (if IsStringEmpty (Token response) then hcHeader (httpClient c) ''Authorization''
            else Some (''Bearer '' @ Token response))) \<and>
      (err \<noteq> None \<or> IsError resp \<longrightarrow> snd (fst (Auth_Authenticate T c authReq wire)) = c)) \<and>
   (T (outgoing (httpClient c) ''POST'' ''/auth/refresh'' Map.empty
         (Some (Fields [(''refresh_token'', refreshToken)])))
      \<lparr> Token = '''' \<rparr> = ((resp', err'), response', apiError') \<longrightarrow>
      (err' = None \<and> \<not> IsError resp' \<and> Token response' \<noteq> '''' \<longrightarrow>
         authToken (snd (fst (Auth_Refresh T c refreshToken wire))) = Token response' \<and>
         hcToken (httpClient (snd (fst (Auth_Refresh T c refreshToken wire)))) = Token response' \<and>
         rqHeader (outgoing (httpClient (snd (fst (Auth_Refresh T c refreshToken wire))))
                     verb endpoint params body) ''Authorization'' =
           (if IsStringEmpty (Token response') then hcHeader (httpClient c) ''Authorization''
            else Some (''Bearer '' @ Token response'))) \<and>
      (err' \<noteq> None \<or> IsError resp' \<longrightarrow> snd (fst (Auth_Refresh T c refreshToken wire)) = c)) \<and>
   hcHeader (httpClient (foldl SetAuthToken (NewClientWithConfig cfg) tokens)) ''Authorization'' = None"
proof (intro conjI impI)
  assume a: "T (outgoing (httpClient c) ''POST'' ''/auth/wallet'' Map.empty (Some (Payload authReq)))
      \<lparr> Token = '''' \<rparr> = ((resp, err), response, apiError)"
  note s = Auth_Authenticate_client [where T = T and wire = wire, OF a]
  { assume "err = None \<and> \<not> IsError resp \<and> Token response \<noteq> ''''"
    then show "authToken (snd (fst (Auth_Authenticate T c authReq wire))) = Token response"
      and "hcToken (httpClient (snd (fst (Auth_Authenticate T c authReq wire)))) = Token response"
      and "rqHeader (outgoing (httpClient (snd (fst (Auth_Authenticate T c authReq wire))))
                     verb endpoint params body) ''Authorization'' =
           (if IsStringEmpty (Token response) then hcHeader (httpClient c) ''Authorization''
            else Some (''Bearer '' @ Token response))"
      by (simp_all add: s SetAuthToken_simps outgoing_header) }
  { assume "err \<noteq> None \<or> IsError resp"
    then show "snd (fst (Auth_Authenticate T c authReq wire)) = c"
      by (auto simp add: s) }
next
  assume a: "T (outgoing (httpClient c) ''POST'' ''/auth/refresh'' Map.empty
         (Some (Fields [(''refresh_token'', refreshToken)])))
      \<lparr> Token = '''' \<rparr> = ((resp', err'), response', apiError')"
  note s = Auth_Refresh_client [where T = T and wire = wire, OF a]
  { assume "err' = None \<and> \<not> IsError resp' \<and> Token response' \<noteq> ''''"
    then show "authToken (snd (fst (Auth_Refresh T c refreshToken wire))) = Token response'"
      and "hcToken (httpClient (snd (fst (Auth_Refresh T c refreshToken wire)))) = Token response'"
      and "rqHeader (outgoing (httpClient (snd (fst (Auth_Refresh T c refreshToken wire))))
                     verb endpoint params body) ''Authorization'' =
           (if IsStringEmpty (Token response') then hcHeader (httpClient c) ''Authorization''
            else Some (''Bearer '' @ Token response'))"
      by (simp_all add: s SetAuthToken_simps outgoing_header) }
  { assume "err' \<noteq> None \<or> IsError resp'"
    then show "snd (fst (Auth_Refresh T c refreshToken wire)) = c"
      by (auto simp add: s) }
next
  show "hcHeader (httpClient (foldl SetAuthToken (NewClientWithConfig cfg) tokens))
          ''Authorization'' = None"
    by (simp add: SetAuthToken_fold_header NewClientWithConfig_header)
qed

theorem auth_token_set_on_success_only_witness:
  "authToken (snd (fst (Auth_Authenticate
       (\<lambda>rq r. ((\<lparr> StatusCode = 200, Status = ''200 OK'', Error = None \<rparr>, None),
                 \<lparr> Token = ''tok123'' \<rparr>, APIError_zero))
       (NewClient ''key'') ''signed challenge'' []))) = ''tok123'' \<and>
   rqHeader (outgoing (httpClient (snd (fst (Auth_Authenticate
       (\<lambda>rq r. ((\<lparr> StatusCode = 200, Status = ''200 OK'', Error = None \<rparr>, None),
                 \<lparr> Token = ''tok123'' \<rparr>, APIError_zero))
       (NewClient ''key'') ''signed challenge'' []))))
     ''GET'' ''/auth/profile'' Map.empty None) ''Authorization'' = Some ''Bearer tok123'' \<and>
   snd (fst (Auth_Authenticate
       (\<lambda>rq r. ((\<lparr> StatusCode = 401, Status = ''401 Unauthorized'',
                     Error = Some \<lparr> Message = ''bad signature'', Code = ''auth'', Details = [],
                                    RetryAfter = 0 \<rparr> \<rparr>, None),
                 r, \<lparr> Message = ''bad signature'', Code = ''auth'', Details = [],
                       RetryAfter = 0 \<rparr>))
       (SetAuthToken (NewClient ''key'') ''tok123'') ''wrong'' [])) =
     SetAuthToken (NewClient ''key'') ''tok123'' \<and>
   snd (fst (Auth_Refresh
       (\<lambda>rq r. ((\<lparr> StatusCode = 0, Status = '''', Error = None \<rparr>,
                  Some (LibError ''dial tcp: timeout'')), r, APIError_zero))
       (SetAuthToken (NewClient ''key'') ''tok123'') ''r1'' [])) =
     SetAuthToken (NewClient ''key'') ''tok123''"
  using
    auth_token_set_on_success_only [where
      T = "\<lambda>rq r. ((\<lparr> StatusCode = 200, Status = ''200 OK'', Error = None \<rparr>, None),
                 \<lparr> Token = ''tok123'' \<rparr>, APIError_zero)"
      and c = "NewClient ''key''" and authReq = "''signed challenge''" and wire = "[]"
      and resp = "\<lparr> StatusCode = 200, Status = ''200 OK'', Error = None \<rparr>"
      and err = None and response = "\<lparr> Token = ''tok123'' \<rparr>" and apiError = APIError_zero
      and verb = "''GET''" and endpoint = "''/auth/profile''" and params = Map.empty
      and body = None and refreshToken = "''r1''" and tokens = "[]"
      and cfg = "config (NewClient ''key'')"
      and resp' = "\<lparr> StatusCode = 200, Status = ''200 OK'', Error = None \<rparr>"
      and err' = None and response' = "\<lparr> Token = ''tok123'' \<rparr>" and apiError' = APIError_zero]
    auth_token_set_on_success_only [where
      T = "\<lambda>rq r. ((\<lparr> StatusCode = 401, Status = ''401 Unauthorized'',
                     Error = Some \<lparr> Message = ''bad signature'', Code = ''auth'', Details = [],
                                    RetryAfter = 0 \<rparr> \<rparr>, None),
                 r, \<lparr> Message = ''bad signature'', Code = ''auth'', Details = [],
                       RetryAfter = 0 \<rparr>)"
      and c = "SetAuthToken (NewClient ''key'') ''tok123''" and authReq = "''wrong''"
      and wire = "[]"
      and resp = "\<lparr> StatusCode = 401, Status = ''401 Unauthorized'',
                     Error = Some \<lparr> Message = ''bad signature'', Code = ''auth'', Details = [],
                                    RetryAfter = 0 \<rparr> \<rparr>"
      and err = None and response = "\<lparr> Token = '''' \<rparr>"
      and apiError = "\<lparr> Message = ''bad signature'', Code = ''auth'', Details = [],
                       RetryAfter = 0 \<rparr>"
      and verb = "''GET''" and endpoint = "''/auth/profile''" and params = Map.empty
      and body = None and refreshToken = "''r1''" and tokens = "[]"
      and cfg = "config (NewClient ''key'')"
      and resp' = "\<lparr> StatusCode = 401, Status = ''401 Unauthorized'',
                     Error = Some \<lparr> Message = ''bad signature'', Code = ''auth'', Details = [],
                                    RetryAfter = 0 \<rparr> \<rparr>"
      and err' = None and response' = "\<lparr> Token = '''' \<rparr>"
      and apiError' = "\<lparr> Message = ''bad signature'', Code = ''auth'', Details = [],
                       RetryAfter = 0 \<rparr>"]
    auth_token_set_on_success_only [where
      T = "\<lambda>rq r. ((\<lparr> StatusCode = 0, Status = '''', Error = None \<rparr>,
                  Some (LibError ''dial tcp: timeout'')), r, APIError_zero)"
      and c = "SetAuthToken (NewClient ''key'') ''tok123''" and authReq = "''wrong''"
      and wire = "[]"
      and resp = "\<lparr> StatusCode = 0, Status = '''', Error = None \<rparr>"
      and err = "Some (LibError ''dial tcp: timeout'')" and response = "\<lparr> Token = '''' \<rparr>"
      and apiError = APIError_zero
      and verb = "''GET''" and endpoint = "''/auth/profile''" and params = Map.empty
      and body = None and refreshToken = "''r1''" and tokens = "[]"
      and cfg = "config (NewClient ''key'')"
      and resp' = "\<lparr> StatusCode = 0, Status = '''', Error = None \<rparr>"
      and err' = "Some (LibError ''dial tcp: timeout'')" and response' = "\<lparr> Token = '''' \<rparr>"
      and apiError' = APIError_zero]
  by (simp add: IsError_def)

section \<open>Properties of webhook signatures\<close>










text \<open>
  Rotations and shifts by a fixed distance, as divisions and multiplications by the
  power of two; the evaluations below use these equations.
\<close>

lemma bsig0_code [code]:
  "bsig0 x = (x div 0x4 OR x * 0x40000000) XOR (x div 0x2000 OR x * 0x80000) XOR
             (x div 0x400000 OR x * 0x400)"
  by (simp add: bsig0_def rotr_def drop_bit_eq_div push_bit_eq_mult)

lemma bsig1_code [code]:
  "bsig1 x = (x div 0x40 OR x * 0x4000000) XOR (x div 0x800 OR x * 0x200000) XOR
             (x div 0x2000000 OR x * 0x80)"
  by (simp add: bsig1_def rotr_def drop_bit_eq_div push_bit_eq_mult)

lemma ssig0_code [code]:
  "ssig0 x = (x div 0x80 OR x * 0x2000000) XOR (x div 0x40000 OR x * 0x4000) XOR x div 0x8"
  by (simp add: ssig0_def rotr_def drop_bit_eq_div push_bit_eq_mult)

lemma ssig1_code [code]:
  "ssig1 x = (x div 0x20000 OR x * 0x8000) XOR (x div 0x80000 OR x * 0x2000) XOR x div 0x400"
  by (simp add: ssig1_def rotr_def drop_bit_eq_div push_bit_eq_mult)













section \<open>The retry settings handed to the HTTP library\<close>

text \<open>
  The source registers one retry condition and sets the retry count, the base wait and
  the wait ceiling; the retry loop itself and the waits between attempts belong to the
  HTTP library. The base wait is taken from the configuration as it is, also when it
  lies above the ceiling of 10 seconds.
\<close>

lemma retry_condition_installed:
  "(\<exists>f \<in> set (hcRetryConditions (httpClient (NewClientWithConfig cfg))). f r err) \<longleftrightarrow>
     (err \<noteq> None \<or> StatusCode r \<ge> 500)"
  by (simp add: NewClientWithConfig_http retryCondition_def)

lemma no_retry_condition_on_4xx:
  assumes "400 \<le> StatusCode r" "StatusCode r \<le> 499"
  shows "\<forall>f \<in> set (hcRetryConditions (httpClient (NewClientWithConfig cfg))). \<not> f r None"
  using assms by (simp add: NewClientWithConfig_http retryCondition_def)

lemma retry_settings:
  "hcRetryCount (httpClient (NewClientWithConfig cfg)) =
     (if MaxRetries cfg = 0 then 3 else MaxRetries cfg)"
  "hcRetryWaitTime (httpClient (NewClientWithConfig cfg)) =
     (if RetryWaitTime cfg = 0 then 1 * Second else RetryWaitTime cfg)"
  "hcRetryMaxWaitTime (httpClient (NewClientWithConfig cfg)) = 10 * Second"
  by (simp_all add: NewClientWithConfig_http setDefaults_simps DefaultMaxRetries_def)

lemma base_wait_above_ceiling:
  "hcRetryMaxWaitTime (httpClient (NewClientWithConfig (cfg\<lparr>RetryWaitTime := 20 * Second\<rparr>))) <
   hcRetryWaitTime (httpClient (NewClientWithConfig (cfg\<lparr>RetryWaitTime := 20 * Second\<rparr>)))"
  by (simp add: retry_settings Second_def)

end
